theory Spec2Isabelle
  imports Main
begin

section \<open>Python values used by the backend\<close>

text \<open>
  A Python \<open>str\<close> is a sequence of Unicode code points, so it is modelled as a list of
  naturals: \<open>len\<close>, \<open>strip\<close> and \<open>==\<close> of the source all work on code points.
  \<open>u\<close> turns an ASCII literal into such a string; a character beyond ASCII is written
  as its code point.
\<close>

type_synonym pystr = "nat list"

definition u :: "string \<Rightarrow> pystr" where
  "u s = map of_char s"

definition nl :: pystr where
  "nl = [10]"

text \<open>\<open>sep.join(xs)\<close>\<close>

fun join :: "pystr \<Rightarrow> pystr list \<Rightarrow> pystr" where
  "join sep [] = []"
| "join sep [x] = x"
| "join sep (x # y # ys) = x @ sep @ join sep (y # ys)"

text \<open>\<open>str.isspace\<close> on one code point, and \<open>str.strip()\<close> without arguments.\<close>

definition isspace :: "nat \<Rightarrow> bool" where
  "isspace c = ((9 \<le> c \<and> c \<le> 13) \<or> (28 \<le> c \<and> c \<le> 32) \<or> c = 133 \<or> c = 160
     \<or> c = 5760 \<or> (8192 \<le> c \<and> c \<le> 8202) \<or> c = 8232 \<or> c = 8233 \<or> c = 8239
     \<or> c = 8287 \<or> c = 12288)"

definition strip :: "pystr \<Rightarrow> pystr" where
  "strip s = rev (dropWhile isspace (rev (dropWhile isspace s)))"

text \<open>\<open>str(n)\<close> for an integer.\<close>

fun digits :: "nat \<Rightarrow> pystr" where
  "digits n = (if n < 10 then [48 + n] else digits (n div 10) @ [48 + n mod 10])"

declare digits.simps [simp del]

definition str_int :: "int \<Rightarrow> pystr" where
  "str_int i = (if i < 0 then 45 # digits (nat (- i)) else digits (nat i))"

text \<open>
  List slicing. \<open>norm_index i n\<close> is the position Python gives a slice bound \<open>i\<close> on a
  list of length \<open>n\<close>: a negative bound counts from the end, and every bound is clipped
  to the list. \<open>slice xs a b\<close> is \<open>xs[a:b]\<close> and \<open>slice_from xs a\<close> is \<open>xs[a:]\<close>.
\<close>

definition norm_index :: "int \<Rightarrow> nat \<Rightarrow> nat" where
  "norm_index i n = (if i < 0 then nat (max 0 (int n + i)) else min (nat i) n)"

definition slice :: "'a list \<Rightarrow> int \<Rightarrow> int \<Rightarrow> 'a list" where
  "slice xs a b =
     (let lo = norm_index a (length xs); hi = norm_index b (length xs)
      in take (hi - lo) (drop lo xs))"

definition slice_from :: "'a list \<Rightarrow> int \<Rightarrow> 'a list" where
  "slice_from xs a = drop (norm_index a (length xs)) xs"

text \<open>
  Exceptions are values. \<open>HTTPException\<close> carries \<open>status_code\<close> and \<open>detail\<close>;
  \<open>TimeoutException\<close> stands for \<open>httpx.TimeoutException\<close> and its subclasses;
  \<open>Exception\<close> for any other exception, with its \<open>str\<close>.
\<close>

datatype exn =
    HTTPException int pystr
  | TimeoutException pystr
  | UnboundLocalError pystr
  | Exception pystr

text \<open>\<open>str(e)\<close>; Starlette renders an \<open>HTTPException\<close> as \<open>status_code: detail\<close>.\<close>

fun str_exn :: "exn \<Rightarrow> pystr" where
  "str_exn (HTTPException c d) = str_int c @ u '': '' @ d"
| "str_exn (TimeoutException m) = m"
| "str_exn (UnboundLocalError m) = m"
| "str_exn (Exception m) = m"

section \<open>config.py\<close>

text \<open>
  The fields of \<open>Settings\<close> that the request handlers read. The generation
  temperature is a float and is left out together with the token bound; both only
  travel in the payload sent upstream.
\<close>

record settings =
  GEMINI_API_KEY :: pystr
  MODEL_NAME :: pystr
  SEARCH_RESULTS :: int
  MAX_HISTORY_LENGTH :: int
  MAX_CONTEXT_MESSAGES :: int

text \<open>The defaults of the class, for a given credential.\<close>

definition default_settings :: "pystr \<Rightarrow> settings" where
  "default_settings key =
     \<lparr>GEMINI_API_KEY = key, MODEL_NAME = u ''gemini-2.5-flash-lite'', SEARCH_RESULTS = 3,
      MAX_HISTORY_LENGTH = 50, MAX_CONTEXT_MESSAGES = 10\<rparr>"

section \<open>prompts.py\<close>

definition SYSTEM_PROMPT :: pystr where
  \<open>SYSTEM_PROMPT = join nl
     [u ''You are "StudyBuddy", an AI tutor and research assistant for students.'',
      [],
      u ''CORE PRINCIPLES:'',
      u ''1. NEVER give direct answers to homework or exam questions'',
      u ''2. Guide students to discover answers themselves using the Socratic method'',
      u ''3. Explain concepts clearly with examples and analogies'',
      u ''4. Cite sources when using specific information'',
      u ''5. Encourage critical thinking and curiosity'',
      [],
      u ''RESPONSE GUIDELINES:'',
      u ''- Ask clarifying questions if the query is vague'',
      u ''- Break down complex topics into simpler parts'',
      u ''- Suggest related topics for deeper learning'',
      u ''- Provide step-by-step guidance for problem-solving'',
      u ''- Recommend additional resources when helpful'',
      [],
      u ''FORMATTING:'',
      u ''- Use bullet points for lists'',
      u ''- Use **bold** for key terms'',
      u ''- Use `code blocks` for formulas/code'',
      u ''- Keep paragraphs concise'',
      [],
      u ''Remember: Your goal is to educate, not just answer. Foster independent learning skills.'']\<close>

definition STUDY_TUTOR_PROMPT :: pystr where
  \<open>STUDY_TUTOR_PROMPT = join nl
     [u ''You are in **Study Tutor Mode**. Focus on:'',
      u ''- Explaining academic concepts from textbooks/courses'',
      u ''- Creating study plans and schedules'',
      u ''- Generating practice questions'',
      u ''- Breaking down complex problems step-by-step'',
      u ''- Identifying knowledge gaps'',
      [],
      u ''Always ask: "What part are you finding challenging?" before explaining.'']\<close>

definition RESEARCH_ASSISTANT_PROMPT :: pystr where
  \<open>RESEARCH_ASSISTANT_PROMPT = join nl
     [u ''You are in **Research Assistant Mode**. Focus on:'',
      u ''- Helping formulate research questions'',
      u ''- Explaining research methodologies'',
      u ''- Summarizing academic papers'',
      u ''- Suggesting relevant literature'',
      u ''- Guiding proper citation (APA/MLA/Chicago)'',
      u ''- Discussing ethical considerations'',
      [],
      u ''Emphasize academic integrity and proper sourcing.'']\<close>

section \<open>main.py: models and global state\<close>

record ChatMessage =
  message :: pystr
  mode :: pystr
  use_rag :: bool

text \<open>
  The constraints pydantic checks before the handler runs:
  \<open>min_length=1\<close>, \<open>max_length=2000\<close> and the pattern \<open>^(general|study|research)$\<close>.
\<close>

definition valid_ChatMessage :: "ChatMessage \<Rightarrow> bool" where
  "valid_ChatMessage c =
     (1 \<le> length (message c) \<and> length (message c) \<le> 2000
      \<and> (mode c = u ''general'' \<or> mode c = u ''study'' \<or> mode c = u ''research''))"

record Feedback =
  rating :: int
  comment :: "pystr option"
  message_id :: "int option"

definition valid_Feedback :: "Feedback \<Rightarrow> bool" where
  "valid_Feedback f = (1 \<le> rating f \<and> rating f \<le> 5)"

text \<open>
  An entry of \<open>conversation_history\<close>. The source builds a dict; a user entry has the
  key \<open>use_rag\<close> and no \<open>model\<close>, an assistant entry the reverse.
\<close>

record turn =
  turn_id :: int
  turn_role :: pystr
  turn_message :: pystr
  turn_mode :: pystr
  turn_timestamp :: pystr
  turn_use_rag :: "bool option"
  turn_model :: "pystr option"

record feedback_entry =
  fb_rating :: int
  fb_comment :: "pystr option"
  fb_message_id :: "int option"
  fb_timestamp :: pystr
  fb_conversation_length :: int

record state =
  conversation_history :: "turn list"
  feedback_store :: "feedback_entry list"

definition initial_state :: state where
  "initial_state = \<lparr>conversation_history = [], feedback_store = []\<rparr>"

section \<open>The collaborators\<close>

text \<open>
  What the vector store returns for one hit: the document and its score. The score is a
  float that the source only ever prints with the format \<open>.2f\<close>; \<open>score_2f\<close> is that
  rendering.
\<close>

record hit =
  page_content :: pystr
  original_filename :: "pystr option"
  score_2f :: pystr

text \<open>
  The reply of the generation endpoint, as far as \<open>call_gemini_api\<close> reads it:
  the status, the outcome of \<open>response.json()\<close> followed by
  \<open>data["candidates"][0]["content"]["parts"][0]["text"]\<close>, and the outcome of
  \<open>response.json()\<close> followed by
  \<open>error_data.get('error', {}).get('message', 'Unknown error')\<close>. Either lookup may raise.
\<close>

record response =
  status_code :: int
  candidate_text :: "exn + pystr"
  error_message :: "exn + pystr"

text \<open>
  The world outside one request: the vector store's similarity search, the HTTP POST to
  the generation endpoint (which may raise), and the clock (\<open>now n\<close> is the \<open>n\<close>-th
  reading of \<open>datetime.now().isoformat()\<close> in the request).
\<close>

record env =
  similarity_search :: "pystr \<Rightarrow> int \<Rightarrow> exn + hit list"
  post :: "pystr \<Rightarrow> exn + response"
  now :: "nat \<Rightarrow> pystr"

text \<open>The calls a handler makes to the two collaborators, in order.\<close>

datatype call =
    RetrievalCall pystr int
  | GenerationCall pystr

section \<open>rag.py\<close>

record snippet =
  content :: pystr
  filename :: pystr
  relevance_score :: pystr

text \<open>\<open>SimpleRAG.search\<close>: any exception of the store gives the empty list.\<close>

definition search :: "settings \<Rightarrow> env \<Rightarrow> pystr \<Rightarrow> int \<Rightarrow> snippet list" where
  "search cfg e query k =
     (let k = (if k = 0 then SEARCH_RESULTS cfg else k)
      in case similarity_search e query k of
           Inl ex \<Rightarrow> []
         | Inr results \<Rightarrow>
             map (\<lambda>h. \<lparr>content = page_content h,
                        filename = (case original_filename h of None \<Rightarrow> u ''unknown'' | Some f \<Rightarrow> f),
                        relevance_score = score_2f h\<rparr>) results)"

text \<open>
  \<open>SimpleRAG.query_with_context\<close>. Its own \<open>except\<close> branch cannot be taken:
  \<open>search\<close> raises nothing and every result has the keys that are read.
\<close>

definition no_context :: pystr where
  "no_context = u ''No relevant context found in knowledge base.''"

definition query_with_context :: "settings \<Rightarrow> env \<Rightarrow> pystr \<Rightarrow> int \<Rightarrow> pystr" where
  "query_with_context cfg e query k =
     (let results = search cfg e query k
      in if results = [] then no_context
         else join (nl @ u ''---'' @ nl)
                (map (\<lambda>result. u ''[Source: '' @ filename result @ u '', Relevance: ''
                        @ relevance_score result @ u '']'' @ nl @ content result @ nl)
                   results))"

section \<open>main.py: helper functions\<close>

definition build_system_prompt :: "pystr \<Rightarrow> pystr" where
  "build_system_prompt m =
     (if m = u ''study'' then SYSTEM_PROMPT @ nl @ nl @ STUDY_TUTOR_PROMPT
      else if m = u ''research'' then SYSTEM_PROMPT @ nl @ nl @ RESEARCH_ASSISTANT_PROMPT
      else SYSTEM_PROMPT)"

definition format_turn :: "turn \<Rightarrow> pystr" where
  "format_turn msg =
     (if turn_role msg = u ''user'' then u ''Student'' else u ''Tutor'') @ u '': '' @ turn_message msg"

definition format_conversation_history :: "turn list \<Rightarrow> int \<Rightarrow> pystr" where
  "format_conversation_history messages max_messages =
     (if messages = [] then []
      else join nl (map format_turn (slice_from messages (- max_messages))))"

text \<open>
  \<open>call_gemini_api\<close>: \<open>try_body\<close> is the body of its \<open>try\<close>, and \<open>except_clauses\<close>
  the two handlers, which turn every exception of the body into an \<open>HTTPException\<close>.
\<close>

definition try_body :: "env \<Rightarrow> pystr \<Rightarrow> exn + pystr" where
  "try_body e prompt =
     (case post e prompt of
        Inl ex \<Rightarrow> Inl ex
      | Inr r \<Rightarrow>
          if status_code r = 200 then candidate_text r
          else (case error_message r of
                  Inl ex \<Rightarrow> Inl ex
                | Inr m \<Rightarrow> Inl (HTTPException (status_code r) (u ''Gemini API error: '' @ m))))"

fun except_clauses :: "exn \<Rightarrow> exn" where
  "except_clauses (TimeoutException m) = HTTPException 504 (u ''Request timeout'')"
| "except_clauses ex = HTTPException 500 (u ''API call failed: '' @ str_exn ex)"

definition call_gemini_api :: "env \<Rightarrow> pystr \<Rightarrow> exn + pystr" where
  "call_gemini_api e prompt =
     (case try_body e prompt of
        Inl ex \<Rightarrow> Inl (except_clauses ex)
      | Inr text \<Rightarrow> Inr text)"

definition fallback_study :: pystr where
  \<open>fallback_study = join nl
     [u ''I'm here to help you study! Try these techniques:'',
      [],
      [0x1F4DA] @ u '' **Active Learning Strategies:**'',
      u ''1. **Spaced Repetition**: Review material at increasing intervals'',
      u ''2. **Interleaving**: Mix different subjects/topics in a study session'',
      u ''3. **Elaboration**: Explain concepts in your own words'',
      u ''4. **Retrieval Practice**: Test yourself without looking at notes'',
      [],
      u ''What specific topic would you like help with?'']\<close>

definition fallback_research :: pystr where
  \<open>fallback_research = join nl
     [u ''**Academic Research Assistance:**'',
      [],
      [0x1F50D] @ u '' **Research Process:**'',
      u ''1. **Question Formulation**: Start with a clear, focused research question'',
      u ''2. **Literature Review**: Use databases like Google Scholar, PubMed, IEEE Xplore'',
      u ''3. **Source Evaluation**: Consider credibility, relevance, and currency'',
      u ''4. **Citation Management**: Use tools like Zotero or Mendeley'',
      [],
      [0x1F4DD] @ u '' **Need help with:**'',
      u ''- Finding relevant sources?'',
      u ''- Understanding methodology?'',
      u ''- Writing literature review?'',
      u ''- Proper citation formatting?'']\<close>

definition fallback_general :: pystr where
  \<open>fallback_general = join nl
     [u ''Hello! I'm your AI StudyBuddy. I can help you with:'',
      [],
      [0x1F3AF] @ u '' **Learning Support:**'',
      u ''- Understanding complex concepts'',
      u ''- Solving problems step-by-step'',
      u ''- Creating study plans'',
      u ''- Generating practice questions'',
      u ''- Research assistance'',
      [],
      [0x1F4A1] @ u '' **How to get the best help:**'',
      u ''1. Be specific about what you're working on'',
      u ''2. Share what you've tried so far'',
      u ''3. Ask about particular concepts you find challenging'',
      u ''4. Request examples or analogies'',
      [],
      u ''What would you like to learn today?'']\<close>

definition get_fallback_response :: "pystr \<Rightarrow> pystr" where
  "get_fallback_response m =
     (if m = u ''study'' then fallback_study
      else if m = u ''research'' then fallback_research
      else fallback_general)"

section \<open>main.py: the request handlers\<close>

text \<open>
  A handler returns or raises (\<open>outcome\<close>), leaves the global state \<open>after\<close>, and
  has made the collaborator \<open>calls\<close> on the way.
\<close>

record 'a reply =
  outcome :: "exn + 'a"
  after :: state
  calls :: "call list"

text \<open>
  The status the client sees: 200 for a return, the status of an \<open>HTTPException\<close>
  (\<open>http_exception_handler\<close>), 500 for any other exception
  (\<open>general_exception_handler\<close>).
\<close>

fun http_status :: "exn + 'a \<Rightarrow> int" where
  "http_status (Inr v) = 200"
| "http_status (Inl (HTTPException c d)) = c"
| "http_status (Inl ex) = 500"

subsection \<open>POST /chat\<close>

record chat_response =
  r_response :: pystr
  r_message_id :: int
  r_mode :: pystr
  r_model :: pystr
  r_timestamp :: pystr
  r_conversation_length :: int
  r_rag_used :: bool

definition user_message :: "env \<Rightarrow> state \<Rightarrow> ChatMessage \<Rightarrow> turn" where
  "user_message e s chat_data =
     \<lparr>turn_id = int (length (conversation_history s)) + 1,
      turn_role = u ''user'',
      turn_message = message chat_data,
      turn_mode = mode chat_data,
      turn_timestamp = now e 0,
      turn_use_rag = Some (use_rag chat_data),
      turn_model = None\<rparr>"

definition ai_message :: "settings \<Rightarrow> env \<Rightarrow> state \<Rightarrow> ChatMessage \<Rightarrow> pystr \<Rightarrow> turn" where
  "ai_message cfg e s chat_data ai_response =
     \<lparr>turn_id = int (length (conversation_history s)) + 1,
      turn_role = u ''assistant'',
      turn_message = ai_response,
      turn_mode = mode chat_data,
      turn_timestamp = now e 1,
      turn_use_rag = None,
      turn_model = Some (MODEL_NAME cfg)\<rparr>"

text \<open>
  Lines 287 to 294: the retrieval context and the call made for it. \<open>rag_system\<close> is
  an object and so always true.
\<close>

definition rag_context :: "settings \<Rightarrow> env \<Rightarrow> ChatMessage \<Rightarrow> pystr \<times> call list" where
  "rag_context cfg e chat_data =
     (if use_rag chat_data then
        (let ctx = query_with_context cfg e (message chat_data) (SEARCH_RESULTS cfg)
         in (if ctx \<noteq> [] \<and> ctx \<noteq> no_context
             then nl @ nl @ u ''[Relevant context from uploaded documents]:'' @ nl @ ctx @ nl
             else ctx,
             [RetrievalCall (message chat_data) (SEARCH_RESULTS cfg)]))
      else ([], []))"

text \<open>Lines 297 to 305: the f-string.\<close>

definition final_prompt :: "pystr \<Rightarrow> pystr \<Rightarrow> pystr \<Rightarrow> pystr \<Rightarrow> pystr" where
  "final_prompt system_prompt ctx history_context msg =
     system_prompt @ nl @ nl @ ctx @ nl @ nl @ history_context @ nl @ nl
       @ u ''Student: '' @ msg @ nl @ nl @ u ''Tutor:''"

text \<open>Lines 318 to 341: append the answer, trim the history, build the reply.\<close>

definition finish_chat ::
  "settings \<Rightarrow> env \<Rightarrow> state \<Rightarrow> ChatMessage \<Rightarrow> pystr \<Rightarrow> call list \<Rightarrow> chat_response reply" where
  "finish_chat cfg e s chat_data ai_response cs =
     (let m = ai_message cfg e s chat_data ai_response;
          h = conversation_history s @ [m];
          h = (if int (length h) > MAX_HISTORY_LENGTH cfg
               then slice_from h (- MAX_HISTORY_LENGTH cfg) else h)
      in \<lparr>outcome = Inr \<lparr>r_response = ai_response, r_message_id = turn_id m,
                          r_mode = mode chat_data, r_model = MODEL_NAME cfg,
                          r_timestamp = turn_timestamp m,
                          r_conversation_length = int (length h),
                          r_rag_used = use_rag chat_data\<rparr>,
          after = s\<lparr>conversation_history := h\<rparr>,
          calls = cs\<rparr>)"

text \<open>
  Lines 282 to 305, the body of the \<open>try\<close> before the generation call; the state is
  the one that already holds the user's entry.
\<close>

definition build_prompt :: "settings \<Rightarrow> env \<Rightarrow> state \<Rightarrow> ChatMessage \<Rightarrow> pystr \<times> call list" where
  "build_prompt cfg e s chat_data =
     (let system_prompt = build_system_prompt (mode chat_data);
          history_context = format_conversation_history (conversation_history s) 4;
          ctx = rag_context cfg e chat_data
      in (final_prompt system_prompt (fst ctx) history_context (message chat_data), snd ctx))"

definition chat :: "settings \<Rightarrow> env \<Rightarrow> state \<Rightarrow> ChatMessage \<Rightarrow> chat_response reply" where
  "chat cfg e s chat_data =
     (if strip (message chat_data) = [] then
        \<lparr>outcome = Inl (HTTPException 400 (u ''Message cannot be empty'')), after = s, calls = []\<rparr>
      else if GEMINI_API_KEY cfg = [] then
        \<lparr>outcome = Inl (HTTPException 500
            (u ''Gemini API key not configured. Please set GEMINI_API_KEY in .env file.'')),
         after = s, calls = []\<rparr>
      else
        (let s1 = s\<lparr>conversation_history :=
                      conversation_history s @ [user_message e s chat_data]\<rparr>;
             prompt = fst (build_prompt cfg e s1 chat_data);
             cs = snd (build_prompt cfg e s1 chat_data) @ [GenerationCall prompt]
         in case call_gemini_api e prompt of
              Inl ex \<Rightarrow>
                (case ex of
                   HTTPException c d \<Rightarrow> \<lparr>outcome = Inl ex, after = s1, calls = cs\<rparr>
                 | _ \<Rightarrow> finish_chat cfg e s1 chat_data
                          (get_fallback_response (mode chat_data)) cs)
            | Inr ai_response \<Rightarrow> finish_chat cfg e s1 chat_data ai_response cs))"

subsection \<open>POST /feedback\<close>

record feedback_response =
  f_success :: bool
  f_message :: pystr
  feedback_id :: int

text \<open>
  The function assigns \<open>feedback_store\<close> and has no \<open>global\<close> statement for it, so
  the name is local to the function and unbound when \<open>append\<close> is reached: the local
  variable is \<open>None\<close> here. The rest of the body is what would run on a bound local.
\<close>

definition submit_feedback :: "env \<Rightarrow> state \<Rightarrow> Feedback \<Rightarrow> feedback_response reply" where
  "submit_feedback e s feedback =
     (let feedback_entry =
            \<lparr>fb_rating = rating feedback, fb_comment = comment feedback,
             fb_message_id = message_id feedback, fb_timestamp = now e 0,
             fb_conversation_length = int (length (conversation_history s))\<rparr>;
          local_feedback_store = (None :: feedback_entry list option)
      in case local_feedback_store of
           None \<Rightarrow>
             \<lparr>outcome = Inl (UnboundLocalError
                 (u ''cannot access local variable 'feedback_store' where it is not associated with a value'')),
              after = s, calls = []\<rparr>
         | Some store \<Rightarrow>
             (let store = store @ [feedback_entry];
                  store = (if length store > 100 then slice_from store (- 100) else store)
              in \<lparr>outcome = Inr \<lparr>f_success = True,
                                  f_message = u ''Thank you for your feedback!'',
                                  feedback_id = int (length store)\<rparr>,
                  after = s, calls = []\<rparr>))"

subsection \<open>GET /history\<close>

record history_page =
  h_messages :: "turn list"
  h_total :: int
  h_limit :: int
  h_offset :: int
  h_has_more :: bool

definition get_history :: "state \<Rightarrow> int \<Rightarrow> int \<Rightarrow> pystr option \<Rightarrow> history_page reply" where
  "get_history s lim off md =
     (let filtered_history =
            (case md of
               None \<Rightarrow> conversation_history s
             | Some m \<Rightarrow> if m = [] then conversation_history s
                         else filter (\<lambda>msg. turn_mode msg = m) (conversation_history s));
          paginated_history = slice filtered_history off (off + lim)
      in \<lparr>outcome = Inr \<lparr>h_messages = paginated_history,
                          h_total = int (length filtered_history),
                          h_limit = lim, h_offset = off,
                          h_has_more = (off + lim < int (length filtered_history))\<rparr>,
          after = s, calls = []\<rparr>)"

subsection \<open>DELETE /history\<close>

record clear_response =
  c_success :: bool
  c_message :: pystr
  cleared_count :: int

definition clear_history :: "state \<Rightarrow> bool \<Rightarrow> clear_response reply" where
  "clear_history s confirm =
     (if \<not> confirm then
        \<lparr>outcome = Inl (HTTPException 400
            (u ''Must confirm deletion by adding ?confirm=true to URL'')),
         after = s, calls = []\<rparr>
      else
        (let n = int (length (conversation_history s))
         in \<lparr>outcome = Inr \<lparr>c_success = True,
                             c_message = u ''Cleared '' @ str_int n @ u '' messages from history'',
                             cleared_count = n\<rparr>,
             after = s\<lparr>conversation_history := []\<rparr>, calls = []\<rparr>))"

subsection \<open>The server\<close>

text \<open>
  The requests the state depends on, and the state a sequence of them leaves, each
  handler running to its end before the next starts.
\<close>

datatype request =
    Chat env ChatMessage
  | SubmitFeedback env Feedback
  | GetHistory int int "pystr option"
  | ClearHistory bool

fun handle :: "settings \<Rightarrow> state \<Rightarrow> request \<Rightarrow> state" where
  "handle cfg s (Chat e chat_data) = after (chat cfg e s chat_data)"
| "handle cfg s (SubmitFeedback e feedback) = after (submit_feedback e s feedback)"
| "handle cfg s (GetHistory lim off md) = after (get_history s lim off md)"
| "handle cfg s (ClearHistory confirm) = after (clear_history s confirm)"

definition serve :: "settings \<Rightarrow> request list \<Rightarrow> state" where
  "serve cfg reqs = foldl (handle cfg) initial_state reqs"

section \<open>Concrete requests and collaborators\<close>

text \<open>
  The default configuration with a credential, a valid request, a generation endpoint
  that answers and one that times out, and an empty vector store.
\<close>

definition cfg0 :: settings where
  "cfg0 = default_settings (u ''test-key'')"

definition hi_study :: ChatMessage where
  "hi_study = \<lparr>message = u ''hi'', mode = u ''study'', use_rag = False\<rparr>"

definition clock0 :: "nat \<Rightarrow> pystr" where
  "clock0 n = u ''2025-01-01T00:00:00''"

definition env_ok :: env where
  "env_ok =
     \<lparr>similarity_search = (\<lambda>q k. Inr []),
      post = (\<lambda>p. Inr \<lparr>status_code = 200, candidate_text = Inr (u ''ok''),
                         error_message = Inr (u ''Unknown error'')\<rparr>),
      now = clock0\<rparr>"

definition env_timeout :: env where
  "env_timeout =
     \<lparr>similarity_search = (\<lambda>q k. Inr []),
      post = (\<lambda>p. Inl (TimeoutException (u ''timed out''))),
      now = clock0\<rparr>"

text \<open>
  A request that asks for retrieval, a message of two spaces (which pydantic accepts,
  its length being 2), and a feedback with the top rating.
\<close>

definition hi_rag :: ChatMessage where
  "hi_rag = \<lparr>message = u ''hi'', mode = u ''general'', use_rag = True\<rparr>"

definition blank_message :: ChatMessage where
  "blank_message = \<lparr>message = u ''  '', mode = u ''general'', use_rag = False\<rparr>"

definition five_stars :: Feedback where
  "five_stars = \<lparr>rating = 5, comment = None, message_id = None\<rparr>"

text \<open>
  What one answered chat does to the list of ids of the log, for a maximum \<open>mx\<close>: the
  two new ids are computed from the length, then the list is trimmed.
\<close>

definition append_ids :: "int \<Rightarrow> int list \<Rightarrow> int list" where
  "append_ids mx ids =
     (let n = int (length ids); ids' = ids @ [n + 1, n + 2]
      in if int (length ids') > mx then slice_from ids' (- mx) else ids')"

section \<open>Properties of the generation call and of the chat handler\<close>

lemma except_clauses_http: "\<exists>c d. except_clauses ex = HTTPException c d"
  by (cases ex) simp_all

text \<open>Whatever goes wrong in \<open>call_gemini_api\<close> leaves it as an \<open>HTTPException\<close>.\<close>

lemma call_gemini_api_raises_http:
  "call_gemini_api e p = Inl ex \<Longrightarrow> \<exists>c d. ex = HTTPException c d"
  unfolding call_gemini_api_def using except_clauses_http
  by (auto split: sum.splits)

lemma map_slice_from: "map f (slice_from xs a) = slice_from (map f xs) a"
  by (simp add: slice_from_def drop_map)

lemma chat_failure_after:
  assumes "strip (message c) \<noteq> []" "GEMINI_API_KEY cfg \<noteq> []"
    and "\<forall>p. \<exists>ex. call_gemini_api e p = Inl ex"
  shows "conversation_history (after (chat cfg e s c)) =
           conversation_history s @ [user_message e s c]"
proof -
  let ?s1 = "s\<lparr>conversation_history := conversation_history s @ [user_message e s c]\<rparr>"
  let ?p = "fst (build_prompt cfg e ?s1 c)"
  from assms(3) obtain ex where ex: "call_gemini_api e ?p = Inl ex" by blast
  then obtain cd d where "ex = HTTPException cd d"
    using call_gemini_api_raises_http by blast
  with ex assms(1,2) show ?thesis by (simp add: chat_def Let_def)
qed

lemma chat_success_after:
  assumes "strip (message c) \<noteq> []" "GEMINI_API_KEY cfg \<noteq> []"
    and "\<forall>p. call_gemini_api e p = Inr r"
  shows "conversation_history (after (chat cfg e s c)) =
     (let s1 = s\<lparr>conversation_history := conversation_history s @ [user_message e s c]\<rparr>;
          h = conversation_history s1 @ [ai_message cfg e s1 c r]
      in if int (length h) > MAX_HISTORY_LENGTH cfg
         then slice_from h (- MAX_HISTORY_LENGTH cfg) else h)"
  using assms by (simp add: chat_def Let_def finish_chat_def)

lemma chat_success_ids:
  assumes "strip (message c) \<noteq> []" "GEMINI_API_KEY cfg \<noteq> []"
    and "\<forall>p. call_gemini_api e p = Inr r"
  shows "map turn_id (conversation_history (after (chat cfg e s c))) =
     append_ids (MAX_HISTORY_LENGTH cfg) (map turn_id (conversation_history s))"
  using assms
  by (simp add: chat_success_after Let_def append_ids_def map_slice_from user_message_def
      ai_message_def add.commute)

lemma env_ok_generates: "call_gemini_api env_ok p = Inr (u ''ok'')"
  by (simp add: call_gemini_api_def try_body_def env_ok_def)

lemma env_timeout_fails:
  "call_gemini_api env_timeout p = Inl (HTTPException 504 (u ''Request timeout''))"
  by (simp add: call_gemini_api_def try_body_def env_timeout_def)

lemma hi_study_passes:
  "strip (message hi_study) \<noteq> []" "GEMINI_API_KEY cfg0 \<noteq> []" "valid_ChatMessage hi_study"
  by (simp_all add: hi_study_def strip_def isspace_def u_def cfg0_def default_settings_def
      valid_ChatMessage_def)

lemma serve_snoc: "serve cfg (reqs @ [r]) = handle cfg (serve cfg reqs) r"
  by (simp add: serve_def)

lemma serve_ok_ids:
  "map turn_id (conversation_history (serve cfg0 (replicate k (Chat env_ok hi_study)))) =
     (append_ids 50 ^^ k) []"
proof (induction k)
  case 0
  show ?case by (simp add: serve_def initial_state_def)
next
  case (Suc k)
  have "replicate (Suc k) (Chat env_ok hi_study) =
          replicate k (Chat env_ok hi_study) @ [Chat env_ok hi_study]"
    by (simp add: replicate_append_same)
  then show ?case
    using Suc chat_success_ids [of hi_study cfg0 env_ok "u ''ok''"] hi_study_passes
      env_ok_generates
    by (simp add: serve_snoc cfg0_def default_settings_def)
qed

lemma ids_after_27: "(append_ids 50 ^^ 27) [] = map int [5..<53] @ [51, 52]"
  by (simp add: eval_nat_numeral append_ids_def slice_from_def norm_index_def Let_def
      upt_conv_Cons)

lemma length_ids_after_25: "length ((append_ids 50 ^^ 25) []) = 50"
  by (simp add: eval_nat_numeral append_ids_def slice_from_def norm_index_def Let_def)

lemma hi_rag_passes: "strip (message hi_rag) \<noteq> []" "valid_ChatMessage hi_rag"
  by (simp_all add: hi_rag_def strip_def isspace_def u_def valid_ChatMessage_def)

lemma blank_message_rejected:
  "strip (message blank_message) = []" "valid_ChatMessage blank_message"
  by (simp_all add: blank_message_def strip_def isspace_def u_def valid_ChatMessage_def)

lemma chat_generation_failure_outcome:
  assumes "strip (message c) \<noteq> []" "GEMINI_API_KEY cfg \<noteq> []"
    and "\<forall>p. call_gemini_api e p = Inl (HTTPException k d)"
  shows "outcome (chat cfg e s c) = Inl (HTTPException k d)"
  using assms by (simp add: chat_def Let_def)

text \<open>
  The fallback branch of \<open>chat\<close> is never taken: a reply of the handler always carries
  a text the generation call returned.
\<close>

lemma chat_returns_generated_text:
  assumes "outcome (chat cfg e s c) = Inr r"
  shows "\<exists>p. call_gemini_api e p = Inr (r_response r)"
proof -
  let ?s1 = "s\<lparr>conversation_history := conversation_history s @ [user_message e s c]\<rparr>"
  let ?p = "fst (build_prompt cfg e ?s1 c)"
  from assms have pass: "strip (message c) \<noteq> []" "GEMINI_API_KEY cfg \<noteq> []"
    by (auto simp: chat_def split: if_splits)
  show ?thesis
  proof (cases "call_gemini_api e ?p")
    case (Inl ex)
    then obtain k d where "ex = HTTPException k d"
      using call_gemini_api_raises_http by blast
    with Inl pass assms show ?thesis by (simp add: chat_def Let_def)
  next
    case (Inr t)
    with pass assms have "r_response r = t"
      by (auto simp: chat_def Let_def finish_chat_def)
    with Inr show ?thesis by blast
  qed
qed

text \<open>The collaborator calls of a chat that passes the two checks.\<close>

lemma chat_calls:
  assumes "strip (message c) \<noteq> []" "GEMINI_API_KEY cfg \<noteq> []"
  shows "calls (chat cfg e s c) =
     (let s1 = s\<lparr>conversation_history := conversation_history s @ [user_message e s c]\<rparr>
      in snd (build_prompt cfg e s1 c) @ [GenerationCall (fst (build_prompt cfg e s1 c))])"
  using assms
  by (simp add: chat_def Let_def finish_chat_def split: sum.splits exn.splits)

lemma slice_from_snoc: "slice_from (xs @ [x]) (- 4) = slice_from xs (- 3) @ [x]"
proof -
  have "nat (max 0 (int (length (xs @ [x])) + - 4)) = nat (max 0 (int (length xs) + - 3))"
    by simp
  moreover have "nat (max 0 (int (length xs) + - 3)) \<le> length xs"
    by simp
  ultimately show ?thesis
    by (simp add: slice_from_def norm_index_def)
qed

lemma one_chat_log:
  "conversation_history (serve cfg0 [Chat env_ok hi_study]) =
     [user_message env_ok initial_state hi_study,
      ai_message cfg0 env_ok
        (initial_state\<lparr>conversation_history := [user_message env_ok initial_state hi_study]\<rparr>)
        hi_study (u ''ok'')]"
  using chat_success_after [of hi_study cfg0 env_ok "u ''ok''" initial_state] hi_study_passes
    env_ok_generates
  by (simp add: serve_def Let_def initial_state_def cfg0_def default_settings_def)

text \<open>
  The prompt of a chat that passes the two checks, in terms of the log before the
  request: the history part is formatted from the log that already holds the user's
  entry.
\<close>

lemma chat_prompt_of_log:
  "strip (message c) \<noteq> [] \<Longrightarrow> GEMINI_API_KEY cfg \<noteq> [] \<Longrightarrow>
   calls (chat cfg e s c) = snd (rag_context cfg e c) @
     [GenerationCall (build_system_prompt (mode c) @ nl @ nl @ fst (rag_context cfg e c)
        @ nl @ nl
        @ join nl (map format_turn
            (slice_from (conversation_history s) (- 3) @ [user_message e s c]))
        @ nl @ nl @ u ''Student: '' @ message c @ nl @ nl @ u ''Tutor:'')]"
  using slice_from_snoc [of "conversation_history s" "user_message e s c"]
  by (simp add: chat_calls Let_def build_prompt_def final_prompt_def
      format_conversation_history_def)

text \<open>The setting \<open>MAX_CONTEXT_MESSAGES\<close> is read nowhere in the handler.\<close>

lemma build_prompt_ignores_context_setting:
  "build_prompt (cfg\<lparr>MAX_CONTEXT_MESSAGES := n\<rparr>) e s c = build_prompt cfg e s c"
  by (simp add: build_prompt_def rag_context_def query_with_context_def search_def)

lemma chat_ignores_context_setting:
  "calls (chat (cfg\<lparr>MAX_CONTEXT_MESSAGES := n\<rparr>) e s c) = calls (chat cfg e s c)"
proof (cases "strip (message c) = [] \<or> GEMINI_API_KEY cfg = []")
  case True
  then show ?thesis by (auto simp: chat_def)
next
  case False
  then show ?thesis
    using chat_calls [of c cfg e s] chat_calls [of c "cfg\<lparr>MAX_CONTEXT_MESSAGES := n\<rparr>" e s]
    by (simp add: Let_def build_prompt_ignores_context_setting)
qed

text \<open>No handler changes the feedback log, so it is empty in every reachable state.\<close>

lemma feedback_store_handle: "feedback_store (handle cfg s r) = feedback_store s"
  by (cases r)
    (auto simp: chat_def Let_def finish_chat_def submit_feedback_def get_history_def
      clear_history_def split: sum.splits exn.splits)

lemma feedback_store_always_empty: "feedback_store (serve cfg reqs) = []"
  by (induction reqs rule: rev_induct)
    (simp_all add: serve_def initial_state_def feedback_store_handle)

text \<open>A failed generation call is seen as status 504 or 500, never as a fallback.\<close>

lemma except_clauses_status:
  "http_status (Inl (except_clauses x) :: exn + pystr) = 504 \<or>
   http_status (Inl (except_clauses x) :: exn + pystr) = 500"
  by (cases x) simp_all

lemma call_gemini_api_failure_status:
  "call_gemini_api e p = Inl ex \<Longrightarrow>
   http_status (Inl ex :: exn + pystr) = 504 \<or> http_status (Inl ex :: exn + pystr) = 500"
  unfolding call_gemini_api_def using except_clauses_status
  by (auto split: sum.splits)

text \<open>Without \<open>use_rag\<close> the handler makes no retrieval call.\<close>

lemma chat_without_rag_no_retrieval:
  "\<not> use_rag c \<Longrightarrow> RetrievalCall q k \<notin> set (calls (chat cfg e s c))"
  by (auto simp: chat_def Let_def finish_chat_def build_prompt_def rag_context_def
      split: sum.splits exn.splits)

section \<open>The claims\<close>

text \<open>
  C1. The claim: when the generation call fails, \<open>/chat\<close> still answers 200 with the
  fallback text of the mode. \<open>call_gemini_api\<close> turns every failure into an
  \<open>HTTPException\<close> and \<open>chat\<close> re-raises those before the branch that takes the
  fallback. For a valid request under a configured credential whose generation call
  times out, the handler raises \<open>HTTPException(504, "Request timeout")\<close> and the client
  sees status 504.
\<close>

theorem chat_timeout_is_surfaced:
  "valid_ChatMessage hi_study \<and> GEMINI_API_KEY cfg0 \<noteq> [] \<and>
   outcome (chat cfg0 env_timeout initial_state hi_study) =
     Inl (HTTPException 504 (u ''Request timeout'')) \<and>
   http_status (outcome (chat cfg0 env_timeout initial_state hi_study)) = 504"
  using chat_generation_failure_outcome
      [of hi_study cfg0 env_timeout 504 "u ''Request timeout''" initial_state]
    hi_study_passes env_timeout_fails
  by simp

text \<open>
  C2. The claim: every valid chat request appends two entries, a user one and then an
  assistant one, whether generation succeeds or not. For the request of C1 the handler
  leaves the log with the user's entry alone.
\<close>

theorem failed_generation_appends_one_turn:
  "map turn_role (conversation_history (after (chat cfg0 env_timeout initial_state hi_study))) =
     [u ''user'']"
  using chat_failure_after [of hi_study cfg0 env_timeout initial_state] hi_study_passes
    env_timeout_fails
  by (simp add: initial_state_def user_message_def)

text \<open>
  C3. The claim: every feedback with a rating from 1 to 5 is appended to the feedback
  log, which keeps the newest 100. \<open>submit_feedback\<close> raises \<open>UnboundLocalError\<close> at
  its \<open>append\<close>: a feedback with rating 5 on a fresh server gets status 500 and the
  log stays empty.
\<close>

theorem feedback_is_never_stored:
  "valid_Feedback five_stars \<and>
   http_status (outcome (submit_feedback env_ok initial_state five_stars)) = 500 \<and>
   feedback_store (after (submit_feedback env_ok initial_state five_stars)) = []"
  by (simp add: valid_Feedback_def five_stars_def submit_feedback_def initial_state_def)

text \<open>
  C4. The claim: in every reachable state the ids of the log are strictly increasing and
  each is one greater than its predecessor, also after truncation. An id is the length
  of the log plus one, so once the log has been trimmed to 50 entries the next two ids
  are 51 and 52 again. Under the default configuration, after 27 answered chats on a
  fresh server the last three ids of the log are 52, 51, 52.
\<close>

theorem ids_repeat_after_truncation:
  "drop 47 (map turn_id (conversation_history
      (serve cfg0 (replicate 27 (Chat env_ok hi_study))))) = [52, 51, 52]"
  by (simp only: serve_ok_ids ids_after_27) simp

text \<open>
  C5. The claim: after any handler has completed the log never holds more than
  \<open>MAX_HISTORY_LENGTH\<close> entries. The trimming is at the end of the handler, after the
  generation call; a call that fails leaves the handler through the re-raised
  \<open>HTTPException\<close> with the user's entry appended and nothing trimmed. Under the
  default maximum of 50, 25 answered chats followed by one whose generation call times
  out leave 51 entries.
\<close>

theorem log_exceeds_maximum_after_failed_generation:
  "MAX_HISTORY_LENGTH cfg0 = 50 \<and>
   length (conversation_history
      (serve cfg0 (replicate 25 (Chat env_ok hi_study) @ [Chat env_timeout hi_study]))) = 51"
proof -
  have "length (conversation_history (serve cfg0 (replicate 25 (Chat env_ok hi_study)))) = 50"
    using serve_ok_ids [of 25] length_ids_after_25 by (metis length_map)
  then show ?thesis
    using chat_failure_after [of hi_study cfg0 env_timeout] hi_study_passes env_timeout_fails
    by (simp add: serve_snoc cfg0_def default_settings_def)
qed

text \<open>
  C6. The claim: with \<open>use_rag\<close> set and no snippet found, the prompt holds neither a
  context block nor a placeholder for the missing results. \<open>chat\<close> recognises the
  placeholder of \<open>query_with_context\<close> and does not wrap it, but leaves it in
  \<open>rag_context\<close>, which goes into the prompt. On a fresh server with an empty vector
  store the prompt for the message "hi" in mode general is the following.
\<close>

theorem no_results_placeholder_reaches_prompt:
  "valid_ChatMessage hi_rag \<and> similarity_search env_ok (message hi_rag) 3 = Inr [] \<and>
   calls (chat cfg0 env_ok initial_state hi_rag) =
     [RetrievalCall (u ''hi'') 3,
      GenerationCall (SYSTEM_PROMPT @ nl @ nl
        @ u ''No relevant context found in knowledge base.''
        @ nl @ nl @ u ''Student: hi'' @ nl @ nl @ u ''Student: hi'' @ nl @ nl @ u ''Tutor:'')]"
  using chat_calls [of hi_rag cfg0 env_ok initial_state] hi_rag_passes hi_study_passes(2)
  by (simp add: Let_def build_prompt_def rag_context_def query_with_context_def search_def
      env_ok_def hi_rag_def cfg0_def default_settings_def no_context_def final_prompt_def
      build_system_prompt_def format_conversation_history_def slice_from_def norm_index_def
      initial_state_def user_message_def format_turn_def u_def)

text \<open>
  C7, as stated: on a log of one user entry followed by one assistant entry,
  \<open>GET /history?limit=1&offset=0\<close> returns the most recent entry, the assistant's.
  After one answered chat on a fresh server the page holds the head of the log, which is
  not its last entry and whose role is not assistant.
\<close>

theorem get_history_most_recent_counterexample:
  "map turn_role (conversation_history (serve cfg0 [Chat env_ok hi_study])) =
     [u ''user'', u ''assistant'']
   \<and> outcome (get_history (serve cfg0 [Chat env_ok hi_study]) 1 0 None) =
       Inr \<lparr>h_messages = [hd (conversation_history (serve cfg0 [Chat env_ok hi_study]))],
            h_total = 2, h_limit = 1, h_offset = 0, h_has_more = True\<rparr>
   \<and> hd (conversation_history (serve cfg0 [Chat env_ok hi_study]))
       \<noteq> last (conversation_history (serve cfg0 [Chat env_ok hi_study]))
   \<and> turn_role (hd (conversation_history (serve cfg0 [Chat env_ok hi_study])))
       \<noteq> u ''assistant''"
  by (simp add: one_chat_log get_history_def Let_def slice_def norm_index_def user_message_def
      ai_message_def u_def)

text \<open>
  C7, amended: on a log of exactly two entries, a user one followed by an assistant one,
  \<open>GET /history\<close> with limit 1, offset 0 and no mode filter returns exactly one
  message, the oldest entry by append order, which has role user; the total is 2 and
  \<open>has_more\<close> is true.
\<close>

theorem get_history_first_page:
  "conversation_history s = [a, b] \<Longrightarrow> turn_role a = u ''user'' \<Longrightarrow>
   turn_role b = u ''assistant'' \<Longrightarrow>
   outcome (get_history s 1 0 None) =
     Inr \<lparr>h_messages = [a], h_total = 2, h_limit = 1, h_offset = 0, h_has_more = True\<rparr>
   \<and> map turn_role [a] = [u ''user'']"
  by (simp add: get_history_def Let_def slice_def norm_index_def)

theorem get_history_first_page_witness:
  "outcome (get_history (serve cfg0 [Chat env_ok hi_study]) 1 0 None) =
     Inr \<lparr>h_messages = [user_message env_ok initial_state hi_study],
          h_total = 2, h_limit = 1, h_offset = 0, h_has_more = True\<rparr>"
  using get_history_first_page [OF one_chat_log] by (simp add: user_message_def ai_message_def)

text \<open>
  C8. The claim: the formatted history holds only entries that precede the current
  message, and the prompt is the system prompt, the retrieval block, that history, the
  new message after \<open>Student:\<close> and the cue \<open>Tutor:\<close>. \<open>chat\<close> appends the
  user's entry before it formats the history, so the current message is part of the
  history and is sent a second time under the label. For the first message "hi" of a
  fresh server in mode study there is no prior entry, yet the prompt holds the line
  \<open>Student: hi\<close> twice, and so it is not the prompt built from the formatting of
  the log as it was before the request.
\<close>

theorem current_message_sent_twice:
  "valid_ChatMessage hi_study \<and> GEMINI_API_KEY cfg0 \<noteq> [] \<and>
   conversation_history initial_state = [] \<and>
   calls (chat cfg0 env_ok initial_state hi_study) =
     [GenerationCall (SYSTEM_PROMPT @ nl @ nl @ STUDY_TUTOR_PROMPT @ nl @ nl @ nl @ nl
        @ u ''Student: hi'' @ nl @ nl @ u ''Student: hi'' @ nl @ nl @ u ''Tutor:'')] \<and>
   calls (chat cfg0 env_ok initial_state hi_study) \<noteq>
     [GenerationCall (final_prompt (build_system_prompt (mode hi_study)) []
        (format_conversation_history (conversation_history initial_state) 4)
        (message hi_study))]"
  using chat_prompt_of_log [of hi_study cfg0 env_ok initial_state] hi_study_passes
  by (simp add: rag_context_def hi_study_def build_system_prompt_def slice_from_def
      norm_index_def initial_state_def user_message_def format_turn_def u_def
      final_prompt_def format_conversation_history_def nl_def)

text \<open>
  C9. \<open>DELETE /history\<close> without confirmation raises an \<open>HTTPException\<close> of status 400
  and leaves the state as it was; with confirmation it empties the log and reports as
  \<open>cleared_count\<close> the length the log had.
\<close>

theorem clear_history_confirm:
  "outcome (clear_history s False) =
     Inl (HTTPException 400 (u ''Must confirm deletion by adding ?confirm=true to URL''))
   \<and> http_status (outcome (clear_history s False)) = 400
   \<and> after (clear_history s False) = s
   \<and> conversation_history (after (clear_history s True)) = []
   \<and> map_sum id cleared_count (outcome (clear_history s True)) =
       Inr (int (length (conversation_history s)))"
  by (simp add: clear_history_def Let_def)

text \<open>
  C10. A chat request whose message is empty after \<open>strip\<close> is rejected with status
  400, and one that arrives while no credential is configured with status 500; either
  way the state is the one before the request (nothing appended, nothing trimmed) and no
  collaborator has been called.
\<close>

theorem rejected_chat_leaves_log:
  "strip (message c) = [] \<or> GEMINI_API_KEY cfg = [] \<Longrightarrow>
   after (chat cfg e s c) = s \<and> calls (chat cfg e s c) = [] \<and>
   http_status (outcome (chat cfg e s c)) = (if strip (message c) = [] then 400 else 500)"
  by (auto simp: chat_def)

theorem rejected_chat_leaves_log_witness:
  "valid_ChatMessage blank_message \<and> strip (message blank_message) = [] \<and>
   after (chat cfg0 env_ok initial_state blank_message) = initial_state \<and>
   http_status (outcome (chat cfg0 env_ok initial_state blank_message)) = 400 \<and>
   GEMINI_API_KEY (default_settings []) = [] \<and>
   after (chat (default_settings []) env_ok initial_state hi_study) = initial_state \<and>
   http_status (outcome (chat (default_settings []) env_ok initial_state hi_study)) = 500"
proof -
  have k: "GEMINI_API_KEY (default_settings []) = []"
    by (simp add: default_settings_def)
  show ?thesis
    using rejected_chat_leaves_log [of blank_message cfg0 env_ok initial_state]
      rejected_chat_leaves_log [of hi_study "default_settings []" env_ok initial_state]
      blank_message_rejected k hi_study_passes
    by simp
qed

end
